theory Spec2Isabelle
  imports Complex_Main "HOL-Library.AList"
begin

section \<open>LTV projection engine of the Olist seller simulator\<close>

text \<open>
  The two dashboards share one computational core: a per-archetype revenue projection
  over five years and its aggregation over an allocation of sellers.
  \<^item> \<^verbatim>\<open>ltv_impact_simulator_v4.py\<close>: the monthly survival-compounding model
    (\<^verbatim>\<open>simulate_archetype_ltv\<close>, \<^verbatim>\<open>calculate_total_ltv\<close>) and the efficiency ranking;
  \<^item> \<^verbatim>\<open>streamlit_app.py\<close>: the annual growth/retention model
    (\<^verbatim>\<open>calculate_ltv_impact\<close>) and the best-year index.

  Conventions of the embedding.
  \<^item> Python's \<^verbatim>\<open>float\<close> is read as the real number it approximates: every quantity is a
    \<^typ>\<open>real\<close>, and rounding is not modelled. Seller counts and month numbers are Python
    \<^verbatim>\<open>int\<close>s, here \<^typ>\<open>int\<close>.
  \<^item> A Python \<^verbatim>\<open>dict\<close> is an association list with distinct keys in insertion order;
    \<^verbatim>\<open>d[k] = v\<close> is \<^const>\<open>AList.update\<close> (an existing key keeps its place, a new key goes
    last) and \<^verbatim>\<open>d[k]\<close> is \<^const>\<open>map_of\<close>, raising \<^verbatim>\<open>KeyError\<close> on a missing key.
  \<^item> The module-level parameter tables are passed as the first argument of the functions
    that read them; the tables of the source are the constants \<open>ARCHETYPE_PARAMS\<close> and
    \<open>ARCHETYPE_DATA\<close>.
  \<^item> Every exception is a value of \<open>error\<close>, on the left of a sum. The one exception of
    the source that has no counterpart here is the \<^verbatim>\<open>OverflowError\<close> of float arithmetic
    (an int beyond the float range multiplied with a float, a float power that overflows):
    it belongs to the rounding that the reals leave out. The statement about failures
    (claim C2) is therefore made for counts and growth rates inside the float range.
\<close>

datatype error = KeyError string | IndexError | ValueError | ZeroDivisionError

text \<open>The built-in \<^verbatim>\<open>sum\<close>: a left-to-right accumulation starting from 0.\<close>

definition py_sum :: "real list \<Rightarrow> real" where
  "py_sum xs = foldl (+) 0 xs"

subsection \<open>Survival-compounding model (ltv\_impact\_simulator\_v4.py)\<close>

text \<open>
  One entry of \<^verbatim>\<open>ARCHETYPE_PARAMS\<close>. The entry's \<^verbatim>\<open>description\<close> is a display label
  (non-ASCII text) that no computation reads; it is left out.
\<close>

record archetype_params =
  initial_monthly_revenue :: real
  monthly_growth_rate :: real
  monthly_churn_rate :: real
  subscription_fee :: real
  params_color :: string

definition ARCHETYPE_PARAMS :: "(string \<times> archetype_params) list" where
  "ARCHETYPE_PARAMS =
    [(''Born Successful'',
        \<lparr>initial_monthly_revenue = 202995 / 100, monthly_growth_rate = 5 / 100,
         monthly_churn_rate = 704 / 10000, subscription_fee = 5228 / 100,
         params_color = ''#2E86AB''\<rparr>),
     (''Grown Successful'',
        \<lparr>initial_monthly_revenue = 25742 / 100, monthly_growth_rate = 5 / 100,
         monthly_churn_rate = 15 / 100, subscription_fee = 49,
         params_color = ''#A23B72''\<rparr>),
     (''Struggling'',
        \<lparr>initial_monthly_revenue = 57649 / 100, monthly_growth_rate = 5 / 100,
         monthly_churn_rate = 15 / 100, subscription_fee = 4923 / 100,
         params_color = ''#F18F01''\<rparr>),
     (''Failed'',
        \<lparr>initial_monthly_revenue = 40539 / 100, monthly_growth_rate = 5 / 100,
         monthly_churn_rate = 15 / 100, subscription_fee = 4930 / 100,
         params_color = ''#C73E1D''\<rparr>)]"

text \<open>The three variables the monthly loop of \<^verbatim>\<open>simulate_archetype_ltv\<close> updates.\<close>

record sim_state =
  survival_probability :: real
  cumulative_ltv :: real
  single_seller_ltv :: "real list"

text \<open>
  One iteration of \<^verbatim>\<open>for month in range(1, months + 1)\<close>: the survival probability decays
  first, the fee weighted by the new survival is accrued, and the running total is
  recorded at every twelfth month.
\<close>

definition month_step :: "archetype_params \<Rightarrow> sim_state \<Rightarrow> int \<Rightarrow> sim_state" where
  "month_step params st month =
    (let survival = survival_probability st * (1 - monthly_churn_rate params);
         monthly_subscription = subscription_fee params * survival;
         cumulative = cumulative_ltv st + monthly_subscription
     in \<lparr>survival_probability = survival,
         cumulative_ltv = cumulative,
         single_seller_ltv =
           (if month mod 12 = 0 then single_seller_ltv st @ [cumulative]
            else single_seller_ltv st)\<rparr>)"

definition sim_init :: sim_state where
  "sim_init = \<lparr>survival_probability = 1, cumulative_ltv = 0, single_seller_ltv = []\<rparr>"

text \<open>
  \<^verbatim>\<open>simulate_archetype_ltv(archetype, seller_count, months=60)\<close>. The test for a zero
  count comes before the table is read, so a zero count never raises.
  \<^verbatim>\<open>[0] * k\<close> is the empty list for a negative \<open>k\<close>. The product \<^verbatim>\<open>ltv * seller_count\<close>
  is the product of reals; Python converts the count to a float first, which raises
  \<^verbatim>\<open>OverflowError\<close> for a count of magnitude \<open>2 ^ 1024\<close> or more.
\<close>

definition simulate_archetype_ltv ::
  "(string \<times> archetype_params) list \<Rightarrow> string \<Rightarrow> int \<Rightarrow> int \<Rightarrow> error + real list" where
  "simulate_archetype_ltv table archetype seller_count months =
    (if seller_count = 0 then Inr (replicate (nat (months div 12)) 0)
     else
       (case map_of table archetype of
          None \<Rightarrow> Inl (KeyError archetype)
        | Some params \<Rightarrow>
            Inr (map (\<lambda>ltv. ltv * of_int seller_count)
                  (single_seller_ltv (foldl (month_step params) sim_init [1..months])))))"

text \<open>
  The body of the loop of \<^verbatim>\<open>calculate_total_ltv\<close> over \<^verbatim>\<open>seller_counts.items()\<close>, with the
  pair (\<^verbatim>\<open>total_ltv_by_year\<close>, \<^verbatim>\<open>archetype_contributions\<close>) as the state. \<^verbatim>\<open>archetype_ltv[-1]\<close>
  and \<^verbatim>\<open>archetype_ltv[i]\<close> raise \<^verbatim>\<open>IndexError\<close> out of range.
\<close>

fun total_ltv_loop ::
  "(string \<times> archetype_params) list \<Rightarrow> (string \<times> int) list \<Rightarrow>
   real list \<times> (string \<times> real) list \<Rightarrow> error + (real list \<times> (string \<times> real) list)" where
  "total_ltv_loop table [] acc = Inr acc"
| "total_ltv_loop table ((archetype, count) # rest) (total_ltv_by_year, archetype_contributions) =
    (case simulate_archetype_ltv table archetype count 60 of
       Inl e \<Rightarrow> Inl e
     | Inr archetype_ltv \<Rightarrow>
         if archetype_ltv = [] then Inl IndexError
         else if length archetype_ltv < 5 then Inl IndexError
         else total_ltv_loop table rest
                (map (\<lambda>i. total_ltv_by_year ! i + archetype_ltv ! i) [0..<5],
                 AList.update archetype (last archetype_ltv) archetype_contributions))"

definition calculate_total_ltv ::
  "(string \<times> archetype_params) list \<Rightarrow> (string \<times> int) list \<Rightarrow>
   error + (real list \<times> (string \<times> real) list)" where
  "calculate_total_ltv table seller_counts =
     total_ltv_loop table seller_counts (replicate 5 0, [])"

subsection \<open>Annual growth/retention model (streamlit\_app.py)\<close>

text \<open>
  One entry of \<^verbatim>\<open>ARCHETYPE_DATA\<close>. The \<^verbatim>\<open>description\<close> (non-ASCII display text) is left
  out, and the \<^verbatim>\<open>name\<close> is kept without its leading pictograph.
\<close>

record archetype_data =
  name :: string
  avg_ltv :: real
  growth_rate :: real
  retention_rate :: real
  color :: string

definition ARCHETYPE_DATA :: "(string \<times> archetype_data) list" where
  "ARCHETYPE_DATA =
    [(''Rising_Star'',
        \<lparr>name = ''Rising Star'', avg_ltv = 1542050 / 100, growth_rate = 25 / 100,
         retention_rate = 85 / 100, color = ''#FF6B6B''\<rparr>),
     (''Steady_Performer'',
        \<lparr>name = ''Steady Performer'', avg_ltv = 875030 / 100, growth_rate = 15 / 100,
         retention_rate = 78 / 100, color = ''#4ECDC4''\<rparr>),
     (''Struggling_Seller'',
        \<lparr>name = ''Struggling Seller'', avg_ltv = 325080 / 100, growth_rate = 8 / 100,
         retention_rate = 45 / 100, color = ''#FFE66D''\<rparr>),
     (''Underperformer'',
        \<lparr>name = ''Underperformer'', avg_ltv = 118020 / 100, growth_rate = 2 / 100,
         retention_rate = 25 / 100, color = ''#FF8E53''\<rparr>)]"

text \<open>The value stored under an archetype in \<^verbatim>\<open>archetype_contributions\<close>.\<close>

record contribution =
  total :: real
  yearly :: "real list"
  contrib_name :: string
  contrib_color :: string

text \<open>
  One iteration of \<^verbatim>\<open>for year in range(1, 6)\<close>, on the pair (\<^verbatim>\<open>yearly_ltv\<close>,
  \<^verbatim>\<open>remaining_sellers\<close>): the year's value is booked with the sellers that remain, and
  only then the retention rate is applied. The power and the products are those of the
  reals; in Python the power raises \<^verbatim>\<open>OverflowError\<close> when it leaves the float range, and so
  does the product with a count of magnitude \<open>2 ^ 1024\<close> or more.
\<close>

definition year_step :: "archetype_data \<Rightarrow> real list \<times> real \<Rightarrow> nat \<Rightarrow> real list \<times> real" where
  "year_step data st year =
    (let yearly_ltv = fst st; remaining_sellers = snd st;
         year_ltv = avg_ltv data * (1 + growth_rate data) ^ year * remaining_sellers
     in (yearly_ltv @ [year_ltv], remaining_sellers * retention_rate data))"

definition yearly_ltv_of :: "archetype_data \<Rightarrow> int \<Rightarrow> real list" where
  "yearly_ltv_of data count = fst (foldl (year_step data) ([], of_int count) [1..<6])"

text \<open>
  The dictionary stored under an archetype: the five yearly values, their sum, and the
  two display fields copied from the table.
\<close>

definition contribution_of :: "archetype_data \<Rightarrow> int \<Rightarrow> contribution" where
  "contribution_of data count =
    (let yearly_ltv = yearly_ltv_of data count
     in \<lparr>total = py_sum yearly_ltv, yearly = yearly_ltv,
         contrib_name = name data, contrib_color = color data\<rparr>)"

text \<open>
  The first loop of \<^verbatim>\<open>calculate_ltv_impact\<close>, with (\<^verbatim>\<open>total_impact\<close>,
  \<^verbatim>\<open>archetype_contributions\<close>) as the state. An archetype whose count is not positive is
  passed over before the table is read.
\<close>

fun ltv_impact_loop ::
  "(string \<times> archetype_data) list \<Rightarrow> (string \<times> int) list \<Rightarrow>
   real \<times> (string \<times> contribution) list \<Rightarrow> error + (real \<times> (string \<times> contribution) list)" where
  "ltv_impact_loop table [] acc = Inr acc"
| "ltv_impact_loop table ((archetype, count) # rest) (total_impact, archetype_contributions) =
    (if count > 0 then
       (case map_of table archetype of
          None \<Rightarrow> Inl (KeyError archetype)
        | Some data \<Rightarrow>
            ltv_impact_loop table rest
              (total_impact + py_sum (yearly_ltv_of data count),
               AList.update archetype (contribution_of data count) archetype_contributions))
     else ltv_impact_loop table rest (total_impact, archetype_contributions))"

text \<open>
  The second loop: \<^verbatim>\<open>yearly_projections\<close>, the sum over the contributions of the value of
  each of the five years. Every stored \<^verbatim>\<open>yearly\<close> list has five elements.
\<close>

definition yearly_projections_of :: "(string \<times> contribution) list \<Rightarrow> real list" where
  "yearly_projections_of archetype_contributions =
     map (\<lambda>year. py_sum (map (\<lambda>contrib. yearly contrib ! year) (map snd archetype_contributions)))
       [0..<5]"

definition calculate_ltv_impact ::
  "(string \<times> archetype_data) list \<Rightarrow> (string \<times> int) list \<Rightarrow>
   error + (real \<times> real list \<times> (string \<times> contribution) list)" where
  "calculate_ltv_impact table seller_counts =
    (case ltv_impact_loop table seller_counts (0, []) of
       Inl e \<Rightarrow> Inl e
     | Inr (total_impact, archetype_contributions) \<Rightarrow>
         Inr (total_impact, yearly_projections_of archetype_contributions, archetype_contributions))"

subsection \<open>Derived analytics\<close>

text \<open>Python's \<^verbatim>\<open>/\<close> raises \<^verbatim>\<open>ZeroDivisionError\<close> on a zero divisor.\<close>

definition py_truediv :: "real \<Rightarrow> real \<Rightarrow> error + real" where
  "py_truediv x y = (if y = 0 then Inl ZeroDivisionError else Inr (x / y))"

text \<open>
  The loop that fills \<^verbatim>\<open>efficiency_data\<close> (ltv\_impact\_simulator\_v4.py): it runs over
  \<^verbatim>\<open>archetype_contributions.items()\<close>, reads the archetype's count, and divides only
  under the test \<^verbatim>\<open>count > 0\<close>.
\<close>

fun efficiency_loop ::
  "(string \<times> int) list \<Rightarrow> (string \<times> real) list \<Rightarrow> (string \<times> real) list \<Rightarrow>
   error + (string \<times> real) list" where
  "efficiency_loop seller_counts [] efficiency_data = Inr efficiency_data"
| "efficiency_loop seller_counts ((archetype, contribution) # rest) efficiency_data =
    (case map_of seller_counts archetype of
       None \<Rightarrow> Inl (KeyError archetype)
     | Some count \<Rightarrow>
         if count > 0 then
           (case py_truediv contribution (of_int count) of
              Inl e \<Rightarrow> Inl e
            | Inr efficiency \<Rightarrow>
                efficiency_loop seller_counts rest (efficiency_data @ [(archetype, efficiency)]))
         else efficiency_loop seller_counts rest efficiency_data)"

text \<open>
  \<^verbatim>\<open>xs.sort(key=f, reverse=True)\<close>: the list is reversed, sorted by a stable ascending
  sort, and reversed again, so that equal keys keep their original order.
\<close>

definition py_sort_reverse :: "('a \<Rightarrow> real) \<Rightarrow> 'a list \<Rightarrow> 'a list" where
  "py_sort_reverse f xs = rev (sort_key f (rev xs))"

text \<open>
  The ranking shown by the dashboard: \<^verbatim>\<open>efficiency_data\<close> after the sort by efficiency.
  (The sort is skipped for an empty list, which it would leave empty; the whole block runs
  under \<^verbatim>\<open>total_sellers > 0\<close>.)
\<close>

definition efficiency_data ::
  "(string \<times> int) list \<Rightarrow> (string \<times> real) list \<Rightarrow> error + (string \<times> real) list" where
  "efficiency_data seller_counts archetype_contributions =
    (case efficiency_loop seller_counts archetype_contributions [] of
       Inl e \<Rightarrow> Inl e
     | Inr unsorted \<Rightarrow> Inr (if unsorted = [] then unsorted else py_sort_reverse snd unsorted))"

text \<open>
  The built-ins \<^verbatim>\<open>max\<close> (the first of the largest elements; \<^verbatim>\<open>ValueError\<close> on an
  empty list) and \<^verbatim>\<open>list.index\<close> (the first position holding the value;
  \<^verbatim>\<open>ValueError\<close> when there is none).
\<close>

fun py_max :: "real list \<Rightarrow> error + real" where
  "py_max [] = Inl ValueError"
| "py_max (x # xs) = Inr (foldl (\<lambda>m y. if y > m then y else m) x xs)"

fun py_index :: "real list \<Rightarrow> real \<Rightarrow> error + nat" where
  "py_index [] v = Inl ValueError"
| "py_index (x # xs) v =
    (if x = v then Inr 0
     else (case py_index xs v of Inl e \<Rightarrow> Inl e | Inr i \<Rightarrow> Inr (Suc i)))"

text \<open>\<^verbatim>\<open>max_year_idx = yearly_projections.index(max(yearly_projections))\<close> (streamlit\_app.py).\<close>

definition max_year_idx :: "real list \<Rightarrow> error + nat" where
  "max_year_idx yearly_projections =
    (case py_max yearly_projections of
       Inl e \<Rightarrow> Inl e
     | Inr m \<Rightarrow> py_index yearly_projections m)"

subsection \<open>Scaling a contribution\<close>

text \<open>
  A contribution with its total and its yearly series doubled, for stating that a
  contribution is linear in the count.
\<close>

abbreviation twice :: "contribution \<Rightarrow> contribution" where
  "twice c \<equiv> c\<lparr>total := 2 * total c, yearly := map ((*) 2) (yearly c)\<rparr>"

subsection \<open>Example inputs\<close>

text \<open>
  The profiles of the two worked scenarios: a monthly churn of 0.10 with a fee of 50, and
  a base revenue of 1000 growing by 0.10 a year with a retention of 0.80.
\<close>

definition demo_params :: archetype_params where
  "demo_params = \<lparr>initial_monthly_revenue = 0, monthly_growth_rate = 0,
     monthly_churn_rate = 1 / 10, subscription_fee = 50, params_color = ''#000000''\<rparr>"

definition demo_data :: archetype_data where
  "demo_data = \<lparr>name = ''Demo'', avg_ltv = 1000, growth_rate = 1 / 10,
     retention_rate = 8 / 10, color = ''#000000''\<rparr>"

text \<open>
  An allocation as the sliders of streamlit\_app.py produce it: every archetype of
  \<^verbatim>\<open>ARCHETYPE_DATA\<close> in the order of the table, in steps of 10.
\<close>

definition slider_counts :: "(string \<times> int) list" where
  "slider_counts = [(''Rising_Star'', 10), (''Steady_Performer'', 0),
                    (''Struggling_Seller'', 0), (''Underperformer'', 0)]"

section \<open>Properties of the loops\<close>

subsection \<open>Auxiliary facts\<close>

lemma py_sum_sum_list: "py_sum xs = sum_list xs"
proof -
  have "foldl (+) a xs = a + sum_list xs" for a :: real
    by (induction xs arbitrary: a) simp_all
  then show ?thesis by (simp add: py_sum_def)
qed

lemma month_loop_state:
  "foldl (month_step params) sim_init [1..int n] =
     \<lparr>survival_probability = (1 - monthly_churn_rate params) ^ n,
      cumulative_ltv = (\<Sum>j = 1..n. subscription_fee params * (1 - monthly_churn_rate params) ^ j),
      single_seller_ltv =
        map (\<lambda>y. \<Sum>j = 1..12 * y. subscription_fee params * (1 - monthly_churn_rate params) ^ j)
          [1..<n div 12 + 1]\<rparr>"
proof -
  define q where "q = 1 - monthly_churn_rate params"
  define cum where "cum k = (\<Sum>j = 1..k. subscription_fee params * q ^ j)" for k :: nat
  define closed where "closed k =
     \<lparr>survival_probability = q ^ k, cumulative_ltv = cum k,
      single_seller_ltv = map (\<lambda>y. cum (12 * y)) [1..<k div 12 + 1]\<rparr>" for k
  have cum_Suc: "cum (Suc k) = cum k + subscription_fee params * (q ^ k * q)" for k
    by (simp add: cum_def)
  have step: "month_step params (closed k) (int (Suc k)) = closed (Suc k)" for k
  proof (cases "12 dvd Suc k")
    case True
    then have m: "int (Suc k) mod 12 = 0"
      using zmod_int [of "Suc k" 12] by (simp del: of_nat_Suc)
    from True have e1: "Suc k div 12 = Suc (k div 12)"
      by (simp add: div_Suc dvd_eq_mod_eq_0)
    from True have "12 * (Suc k div 12) = Suc k"
      by (rule dvd_mult_div_cancel)
    with e1 have e2: "12 * Suc (k div 12) = Suc k" by (simp only:)
    note e = e1 e2
    have l: "map (\<lambda>y. cum (12 * y)) [1..<Suc k div 12 + 1] =
             map (\<lambda>y. cum (12 * y)) [1..<k div 12 + 1] @ [cum (Suc k)]"
    proof -
      have u: "[1..<Suc (k div 12) + 1] = [1..<k div 12 + 1] @ [Suc (k div 12)]" by simp
      show ?thesis by (simp only: e(1) u map_append list.map e(2))
    qed
    show ?thesis
      unfolding closed_def l month_step_def Let_def
      using m by (simp add: cum_Suc q_def del: of_nat_Suc)
  next
    case False
    then have m: "int (Suc k) mod 12 \<noteq> 0"
      using zmod_int [of "Suc k" 12] by (simp add: dvd_eq_mod_eq_0 del: of_nat_Suc)
    from False have e: "Suc k div 12 = k div 12"
      by (simp add: div_Suc dvd_eq_mod_eq_0)
    show ?thesis
      unfolding closed_def e month_step_def Let_def
      using m by (simp add: cum_Suc q_def del: of_nat_Suc)
  qed
  have "foldl (month_step params) sim_init [1..int k] = closed k" for k
  proof (induction k)
    case 0
    show ?case by (simp add: sim_init_def closed_def cum_def)
  next
    case (Suc k)
    have up: "[1..int (Suc k)] = [1..int k] @ [int (Suc k)]"
      using upto_rec2 [of 1 "int (Suc k)"] by simp
    show ?case
      by (simp only: up foldl_append foldl.simps Suc.IH step)
  qed
  then show ?thesis
    by (simp only: closed_def cum_def q_def)
qed


lemma simulate_closed:
  assumes "map_of table archetype = Some params"
  shows "simulate_archetype_ltv table archetype seller_count months =
     Inr (map (\<lambda>y. (\<Sum>j = 1..12 * y. subscription_fee params * (1 - monthly_churn_rate params) ^ j)
                  * of_int seller_count)
            [1..<nat (months div 12) + 1])"
proof (cases "0 \<le> months")
  case True
  then obtain n where n: "months = int n"
    using nonneg_int_cases by blast
  have d: "nat (int n div 12) = n div 12"
    by (simp add: nat_div_distrib)
  show ?thesis
  proof (cases "seller_count = 0")
    case True
    then show ?thesis
      unfolding n d by (simp add: simulate_archetype_ltv_def map_replicate_const del: upt_Suc)
  next
    case False
    then show ?thesis
      unfolding n d using assms
      by (simp add: simulate_archetype_ltv_def month_loop_state comp_def del: upt_Suc)
  qed
next
  case False
  then have e: "[1..months] = []" by simp
  from False have "months div 12 < 0" by simp
  then have d: "nat (months div 12) = 0" by simp
  show ?thesis
    using assms by (simp add: simulate_archetype_ltv_def e d sim_init_def)
qed

lemma simulate_zero: "simulate_archetype_ltv table archetype 0 60 = Inr [0, 0, 0, 0, 0]"
  by (simp add: simulate_archetype_ltv_def numeral_eq_Suc)

lemma simulate_unknown:
  "map_of table archetype = None \<Longrightarrow> seller_count \<noteq> 0 \<Longrightarrow>
   simulate_archetype_ltv table archetype seller_count months = Inl (KeyError archetype)"
  by (simp add: simulate_archetype_ltv_def)

lemma simulate_length:
  "simulate_archetype_ltv table archetype seller_count 60 = Inr ys \<Longrightarrow> length ys = 5"
proof (cases "map_of table archetype")
  case None
  assume "simulate_archetype_ltv table archetype seller_count 60 = Inr ys"
  with None show ?thesis
    by (cases "seller_count = 0") (auto simp: simulate_archetype_ltv_def)
next
  case (Some params)
  assume "simulate_archetype_ltv table archetype seller_count 60 = Inr ys"
  with simulate_closed [OF Some, of seller_count 60] show ?thesis by auto
qed


lemma year_loop_state:
  "foldl (year_step data) ([], c) [1..<Suc k] =
     (map (\<lambda>y. avg_ltv data * (1 + growth_rate data) ^ y * (c * retention_rate data ^ (y - 1)))
        [1..<Suc k],
      c * retention_rate data ^ k)"
proof (induction k)
  case 0
  show ?case by simp
next
  case (Suc k)
  have u: "[1..<Suc (Suc k)] = [1..<Suc k] @ [Suc k]" by simp
  show ?case
    by (simp only: u foldl_append foldl.simps Suc.IH map_append list.map)
       (simp add: year_step_def Let_def)
qed

lemma yearly_ltv_of_closed:
  "yearly_ltv_of data count =
     map (\<lambda>y. avg_ltv data * (1 + growth_rate data) ^ y *
               (of_int count * retention_rate data ^ (y - 1))) [1..<6]"
proof -
  have "(6::nat) = Suc 5" by simp
  then show ?thesis
    by (simp only: yearly_ltv_of_def year_loop_state fst_conv)
qed

lemma yearly_ltv_of_length: "length (yearly_ltv_of data count) = 5"
  by (simp add: yearly_ltv_of_closed)

lemma update_fresh: "k \<notin> fst ` set al \<Longrightarrow> AList.update k v al = al @ [(k, v)]"
  by (induction al) auto

lemma ltv_impact_loop_ok:
  assumes "distinct (map fst sc)"
    and "fst ` set sc \<inter> fst ` set c0 = {}"
    and "\<forall>(a, n) \<in> set sc. n > 0 \<longrightarrow> map_of table a \<noteq> None"
  shows "ltv_impact_loop table sc (t0, c0) =
     Inr (t0 + sum_list (map (\<lambda>(a, n). py_sum (yearly_ltv_of (the (map_of table a)) n))
                            (filter (\<lambda>(a, n). n > 0) sc)),
          c0 @ map (\<lambda>(a, n). (a, contribution_of (the (map_of table a)) n))
                 (filter (\<lambda>(a, n). n > 0) sc))"
  using assms
proof (induction sc arbitrary: t0 c0)
  case Nil
  show ?case by simp
next
  case (Cons p sc)
  obtain a n where p: "p = (a, n)" by (cases p)
  from Cons.prems have dist: "distinct (map fst sc)" and fresh: "a \<notin> fst ` set sc"
    and a0: "a \<notin> fst ` set c0" and disj: "fst ` set sc \<inter> fst ` set c0 = {}"
    and tab: "\<forall>(a, n) \<in> set sc. n > 0 \<longrightarrow> map_of table a \<noteq> None"
    by (auto simp: p)
  show ?case
  proof (cases "n > 0")
    case False
    then show ?thesis
      using Cons.IH [OF dist disj tab] by (simp add: p)
  next
    case True
    with Cons.prems(3) obtain d where d: "map_of table a = Some d"
      by (auto simp: p)
    have disj': "fst ` set sc \<inter> fst ` set (c0 @ [(a, contribution_of d n)]) = {}"
      using disj fresh by auto
    show ?thesis
      using True Cons.IH [OF dist disj' tab]
      by (simp add: p d update_fresh [OF a0] add.assoc)
  qed
qed

lemma ltv_impact_loop_fail:
  assumes "\<exists>(a, n) \<in> set sc. n > 0 \<and> map_of table a = None"
  shows "\<exists>a n. (a, n) \<in> set sc \<and> n > 0 \<and> map_of table a = None \<and>
           ltv_impact_loop table sc acc = Inl (KeyError a)"
  using assms
proof (induction sc arbitrary: acc)
  case Nil
  then show ?case by simp
next
  case (Cons p sc)
  obtain a n where p: "p = (a, n)" by (cases p)
  obtain t0 c0 where acc: "acc = (t0, c0)" by (cases acc)
  show ?case
  proof (cases "n > 0 \<and> map_of table a = None")
    case True
    then show ?thesis by (auto simp: p acc)
  next
    case False
    with Cons.prems have ex: "\<exists>(a, n) \<in> set sc. n > 0 \<and> map_of table a = None"
      by (auto simp: p)
    show ?thesis
    proof (cases "n > 0")
      case True
      with False obtain d where d: "map_of table a = Some d" by auto
      from Cons.IH [OF ex, of "(t0 + py_sum (yearly_ltv_of d n),
            AList.update a (contribution_of d n) c0)"]
      show ?thesis using True by (auto simp: p acc d)
    next
      case F: False
      from Cons.IH [OF ex, of "(t0, c0)"]
      show ?thesis using F by (auto simp: p acc)
    qed
  qed
qed


lemma upt_5: "[0..<5] = [0, 1, 2, 3, 4]"
  by (simp add: upt_rec)

lemma length_5_nth:
  assumes "length ys = 5"
  shows "ys = [ys ! 0, ys ! 1, ys ! 2, ys ! 3, ys ! 4]"
proof -
  have "ys = map ((!) ys) [0..<length ys]" by (simp add: map_nth)
  then show ?thesis unfolding assms upt_5 by simp
qed

lemma sum_list_5:
  fixes ys :: "real list"
  assumes "length ys = 5"
  shows "sum_list ys = ys ! 0 + ys ! 1 + ys ! 2 + ys ! 3 + ys ! 4"
proof -
  have "sum_list ys = sum_list [ys ! 0, ys ! 1, ys ! 2, ys ! 3, ys ! 4]"
    using length_5_nth [OF assms] by simp
  then show ?thesis by simp
qed

lemma last_5:
  assumes "length ys = 5"
  shows "last ys = ys ! 4"
proof -
  from assms have "ys \<noteq> []" by auto
  then have "last ys = ys ! (length ys - 1)" by (rule last_conv_nth)
  then show ?thesis by (simp add: assms)
qed

lemma total_ltv_loop_inv:
  assumes "total_ltv_loop table sc (t0, c0) = Inr (tot, c)"
    and "distinct (map fst sc)"
    and "fst ` set sc \<inter> fst ` set c0 = {}"
    and "length t0 = 5"
  shows "length tot = 5 \<and> sum_list (map snd c) - last tot = sum_list (map snd c0) - last t0
         \<and> map fst c = map fst c0 @ map fst sc"
  using assms
proof (induction sc arbitrary: t0 c0)
  case Nil
  then show ?case by simp
next
  case (Cons p sc)
  obtain a n where p: "p = (a, n)" by (cases p)
  from Cons.prems have dist: "distinct (map fst sc)" and fresh: "a \<notin> fst ` set sc"
    and a0: "a \<notin> fst ` set c0" and disj: "fst ` set sc \<inter> fst ` set c0 = {}"
    by (auto simp: p)
  from Cons.prems(1) obtain ys where ys: "simulate_archetype_ltv table a n 60 = Inr ys"
    by (auto simp: p split: sum.splits)
  then have len: "length ys = 5" by (rule simulate_length)
  then have ne: "ys \<noteq> []" by auto
  define t1 where "t1 = map (\<lambda>i. t0 ! i + ys ! i) [0..<5]"
  have run: "total_ltv_loop table sc (t1, c0 @ [(a, last ys)]) = Inr (tot, c)"
    using Cons.prems(1) by (simp add: p ys len ne t1_def update_fresh [OF a0])
  have disj': "fst ` set sc \<inter> fst ` set (c0 @ [(a, last ys)]) = {}"
    using disj fresh by auto
  have l1: "length t1 = 5" by (simp add: t1_def)
  have last1: "last t1 = last t0 + last ys"
    using Cons.prems(4) len by (simp add: last_5 l1) (simp add: t1_def upt_5)
  from Cons.IH [OF run dist disj' l1] show ?case
    by (simp add: last1 p)
qed

lemma yearly_sums_commute:
  assumes "\<forall>c \<in> set cs. length (yearly c) = 5"
  shows "sum_list (map (\<lambda>year. sum_list (map (\<lambda>c. yearly c ! year) cs)) [0..<5]) =
         sum_list (map (\<lambda>c. sum_list (yearly c)) cs)"
  using assms
proof (induction cs)
  case Nil
  show ?case by (simp add: upt_5)
next
  case (Cons c cs)
  then have "length (yearly c) = 5" by simp
  then have s: "sum_list (yearly c) = yearly c ! 0 + yearly c ! 1 + yearly c ! 2 + yearly c ! 3 + yearly c ! 4"
    by (rule sum_list_5)
  from Cons have "sum_list (map (\<lambda>year. sum_list (map (\<lambda>c. yearly c ! year) cs)) [0..<5]) =
         sum_list (map (\<lambda>c. sum_list (yearly c)) cs)" by simp
  then show ?case
    by (simp add: upt_5 s)
qed

lemma ltv_impact_loop_total:
  assumes "\<forall>(a, n) \<in> set sc. n > 0 \<longrightarrow> map_of table a \<noteq> None"
  shows "\<exists>r. ltv_impact_loop table sc acc = Inr r"
  using assms
proof (induction sc arbitrary: acc)
  case Nil
  show ?case by simp
next
  case (Cons p sc)
  obtain a n where p: "p = (a, n)" by (cases p)
  obtain t0 c0 where acc: "acc = (t0, c0)" by (cases acc)
  from Cons.prems have tab: "\<forall>(a, n) \<in> set sc. n > 0 \<longrightarrow> map_of table a \<noteq> None"
    by simp
  show ?case
  proof (cases "n > 0")
    case True
    with Cons.prems obtain d where d: "map_of table a = Some d" by (auto simp: p)
    show ?thesis
      using True Cons.IH [OF tab] by (simp add: p acc d)
  next
    case False
    then show ?thesis
      using Cons.IH [OF tab] by (simp add: p acc)
  qed
qed

lemma ltv_impact_loop_known:
  assumes "ltv_impact_loop table sc acc = Inr r"
  shows "\<forall>(a, n) \<in> set sc. n > 0 \<longrightarrow> map_of table a \<noteq> None"
proof (rule ccontr)
  assume "\<not> ?thesis"
  then have "\<exists>(a, n) \<in> set sc. n > 0 \<and> map_of table a = None" by auto
  from ltv_impact_loop_fail [OF this, of acc] assms show False by auto
qed

lemma calculate_ltv_impact_result:
  assumes "calculate_ltv_impact table sc = Inr (ti, yp, cs)"
    and "distinct (map fst sc)"
  shows "cs = map (\<lambda>(a, n). (a, contribution_of (the (map_of table a)) n))
                (filter (\<lambda>(a, n). n > 0) sc)"
    and "ti = sum_list (map (\<lambda>(a, n). py_sum (yearly_ltv_of (the (map_of table a)) n))
                (filter (\<lambda>(a, n). n > 0) sc))"
    and "yp = yearly_projections_of cs"
proof -
  from assms(1) have run: "ltv_impact_loop table sc (0, []) = Inr (ti, cs)"
    and yp: "yp = yearly_projections_of cs"
    by (auto simp: calculate_ltv_impact_def split: sum.splits)
  from ltv_impact_loop_known [OF run]
  have tab: "\<forall>(a, n) \<in> set sc. n > 0 \<longrightarrow> map_of table a \<noteq> None" .
  from ltv_impact_loop_ok [OF assms(2) _ tab, of "[]" 0] run
  show "cs = map (\<lambda>(a, n). (a, contribution_of (the (map_of table a)) n))
                (filter (\<lambda>(a, n). n > 0) sc)"
    and "ti = sum_list (map (\<lambda>(a, n). py_sum (yearly_ltv_of (the (map_of table a)) n))
                (filter (\<lambda>(a, n). n > 0) sc))"
    by simp_all
  show "yp = yearly_projections_of cs" by (rule yp)
qed

lemma contribution_of_simps:
  "total (contribution_of d n) = py_sum (yearly_ltv_of d n)"
  "yearly (contribution_of d n) = yearly_ltv_of d n"
  "contrib_name (contribution_of d n) = name d"
  "contrib_color (contribution_of d n) = color d"
  by (simp_all add: contribution_of_def Let_def)

lemma yearly_projections_single:
  "length (yearly c) = 5 \<Longrightarrow> yearly_projections_of [(a, c)] = yearly c"
proof -
  assume l: "length (yearly c) = 5"
  have "yearly_projections_of [(a, c)] = map ((!) (yearly c)) [0..<length (yearly c)]"
    unfolding l by (simp add: yearly_projections_of_def py_sum_def)
  then show ?thesis by (simp add: map_nth)
qed

lemma calculate_ltv_impact_single:
  assumes "map_of table a = Some d" and "n > 0"
  shows "calculate_ltv_impact table [(a, n)] =
          Inr (py_sum (yearly_ltv_of d n), yearly_ltv_of d n, [(a, contribution_of d n)])"
  using assms
  by (simp add: calculate_ltv_impact_def yearly_projections_single contribution_of_simps
        yearly_ltv_of_length)

lemma calculate_ltv_impact_nonpositive:
  assumes "\<forall>(a, n) \<in> set sc. n \<le> 0"
  shows "ltv_impact_loop table sc acc = Inr acc"
  using assms
proof (induction sc)
  case Nil
  show ?case by simp
next
  case (Cons p sc)
  obtain a n where p: "p = (a, n)" by (cases p)
  obtain t0 c0 where acc: "acc = (t0, c0)" by (cases acc)
  from Cons show ?case by (simp add: p acc)
qed

lemma map_of_contributions:
  assumes "distinct (map fst sc)" and "(a, n) \<in> set sc" and "P a n"
  shows "map_of (map (\<lambda>(a, n). (a, f a n)) (filter (\<lambda>(a, n). P a n) sc)) a = Some (f a n)"
  using assms
proof (induction sc)
  case Nil
  then show ?case by simp
next
  case (Cons p sc)
  obtain b m where p: "p = (b, m)" by (cases p)
  show ?case
  proof (cases "(a, n) = (b, m)")
    case True
    with Cons.prems show ?thesis by (simp add: p)
  next
    case False
    with Cons.prems have mem: "(a, n) \<in> set sc" and ne: "a \<noteq> b"
      by (auto simp: p rev_image_eqI)
    with Cons show ?thesis by (simp add: p)
  qed
qed

lemma upt_1_6: "[1..<6] = [1, 2, 3, 4, 5]"
  by (simp add: upt_rec)

lemma demo_yearly:
  "yearly_ltv_of demo_data 100 = [110000, 96800, 85184, 7496192 / 100, 659664896 / 10000]"
  by (simp only: yearly_ltv_of_closed upt_1_6 list.map) (simp add: demo_data_def power_divide)

lemma calculate_total_ltv_single:
  assumes "simulate_archetype_ltv table a n 60 = Inr ys"
  shows "calculate_total_ltv table [(a, n)] = Inr (ys, [(a, last ys)])"
proof -
  have l: "length ys = 5" using assms by (rule simulate_length)
  then have ne: "ys \<noteq> []" by auto
  have "map (\<lambda>i. replicate 5 (0::real) ! i + ys ! i) [0..<5] = map ((!) ys) [0..<length ys]"
    unfolding l by (simp add: upt_5 numeral_eq_Suc)
  then have t: "map (\<lambda>i. replicate 5 (0::real) ! i + ys ! i) [0..<5] = ys"
    by (simp add: map_nth)
  show ?thesis
    by (simp add: calculate_total_ltv_def assms l ne t)
qed

lemma sum_contributions_survival:
  assumes "calculate_total_ltv table sc = Inr (tot, contribs)" and "distinct (map fst sc)"
  shows "py_sum (map snd contribs) = last tot"
proof -
  from assms(1) have run: "total_ltv_loop table sc (replicate 5 0, []) = Inr (tot, contribs)"
    by (simp add: calculate_total_ltv_def)
  have "last (replicate 5 (0::real)) = 0" by simp
  with total_ltv_loop_inv [OF run assms(2)] show ?thesis
    by (simp add: py_sum_sum_list)
qed

lemma sum_contributions_annual:
  assumes "calculate_ltv_impact table sc = Inr (ti, yp, cs)" and "distinct (map fst sc)"
  shows "py_sum (map (total \<circ> snd) cs) = ti" and "py_sum yp = ti"
proof -
  note r = calculate_ltv_impact_result [OF assms]
  show a: "py_sum (map (total \<circ> snd) cs) = ti"
    unfolding r(1) r(2) py_sum_sum_list
    by (simp add: comp_def case_prod_unfold contribution_of_simps py_sum_sum_list)
  have len: "\<forall>c \<in> set (map snd cs). length (yearly c) = 5"
    unfolding r(1) by (auto simp: contribution_of_simps yearly_ltv_of_length)
  have "py_sum yp = sum_list (map (\<lambda>c. sum_list (yearly c)) (map snd cs))"
    unfolding r(3) yearly_projections_of_def py_sum_sum_list
    using yearly_sums_commute [OF len] by (simp add: py_sum_sum_list [abs_def])
  also have "\<dots> = sum_list (map (total \<circ> snd) cs)"
    unfolding r(1)
    by (simp add: comp_def case_prod_unfold contribution_of_simps py_sum_sum_list)
  finally show "py_sum yp = ti" using a by (simp add: py_sum_sum_list)
qed

lemma slider_run:
  "calculate_ltv_impact ARCHETYPE_DATA slider_counts =
     Inr (py_sum (yearly_ltv_of (snd (hd ARCHETYPE_DATA)) 10),
          yearly_ltv_of (snd (hd ARCHETYPE_DATA)) 10,
          [(''Rising_Star'', contribution_of (snd (hd ARCHETYPE_DATA)) 10)])"
  by (simp add: calculate_ltv_impact_def slider_counts_def ARCHETYPE_DATA_def
        yearly_projections_single contribution_of_simps yearly_ltv_of_length)

lemma demo_simulate:
  "simulate_archetype_ltv [(''A'', demo_params)] ''A'' 2 60 =
     Inr (map (\<lambda>y. (\<Sum>j = 1..12 * y. 50 * (9 / 10) ^ j) * 2) [1..<6])"
proof -
  have h: "map_of [(''A'', demo_params)] ''A'' = Some demo_params" by simp
  have c: "monthly_churn_rate demo_params = 1 / 10" "subscription_fee demo_params = 50"
    by (simp_all add: demo_params_def)
  from simulate_closed [OF h, of 2 60] show ?thesis
    by (simp add: c del: upt_Suc)
qed

lemma simulate_known:
  "map_of table archetype \<noteq> None \<Longrightarrow>
   \<not> isl (simulate_archetype_ltv table archetype seller_count months)"
  by (auto simp: simulate_archetype_ltv_def)

lemma simulate_zero_any: "\<not> isl (simulate_archetype_ltv table archetype 0 months)"
  by (simp add: simulate_archetype_ltv_def)

lemma calculate_ltv_impact_fail:
  assumes "\<exists>(a, n) \<in> set sc. n > 0 \<and> map_of table a = None"
  shows "\<exists>a n. (a, n) \<in> set sc \<and> n > 0 \<and> map_of table a = None \<and>
           calculate_ltv_impact table sc = Inl (KeyError a)"
proof -
  from ltv_impact_loop_fail [OF assms, of "(0, [])"]
  obtain a n where "(a, n) \<in> set sc" "n > 0" "map_of table a = None"
    "ltv_impact_loop table sc (0, []) = Inl (KeyError a)" by blast
  then show ?thesis by (auto simp: calculate_ltv_impact_def)
qed

lemma calculate_ltv_impact_total:
  assumes "\<forall>(a, n) \<in> set sc. n > 0 \<longrightarrow> map_of table a \<noteq> None"
  shows "\<not> isl (calculate_ltv_impact table sc)"
proof -
  from ltv_impact_loop_total [OF assms, of "(0, [])"]
  obtain r where "ltv_impact_loop table sc (0, []) = Inr r" by blast
  then show ?thesis by (cases r) (simp add: calculate_ltv_impact_def)
qed

lemma simulate_double:
  "simulate_archetype_ltv table archetype (2 * k) months =
     (case simulate_archetype_ltv table archetype k months of
        Inl e \<Rightarrow> Inl e | Inr ys \<Rightarrow> Inr (map ((*) 2) ys))"
proof (cases "k = 0")
  case True
  then show ?thesis by (simp add: simulate_archetype_ltv_def)
next
  case False
  show ?thesis
  proof (cases "map_of table archetype")
    case None
    with False show ?thesis by (simp add: simulate_archetype_ltv_def)
  next
    case (Some params)
    with False show ?thesis
      by (simp add: simulate_archetype_ltv_def comp_def algebra_simps)
  qed
qed

lemma yearly_ltv_of_double:
  "yearly_ltv_of data (2 * k) = map ((*) 2) (yearly_ltv_of data k)"
  by (simp add: yearly_ltv_of_closed comp_def algebra_simps del: upt_Suc)

lemma py_sum_double: "py_sum (map ((*) 2) xs) = 2 * py_sum xs"
  by (simp add: py_sum_sum_list sum_list_const_mult)

lemma contribution_of_double:
  "contribution_of data (2 * k) = twice (contribution_of data k)"
  by (simp add: contribution_of_def Let_def yearly_ltv_of_double py_sum_double)

lemma map_of_contributions_none:
  assumes "(a, n) \<in> set sc" and "distinct (map fst sc)" and "\<not> P a n"
  shows "map_of (map (\<lambda>(a, n). (a, f a n)) (filter (\<lambda>(a, n). P a n) sc)) a = None"
proof -
  have "a \<notin> fst ` set (map (\<lambda>(a, n). (a, f a n)) (filter (\<lambda>(a, n). P a n) sc))"
  proof
    assume "a \<in> fst ` set (map (\<lambda>(a, n). (a, f a n)) (filter (\<lambda>(a, n). P a n) sc))"
    then obtain m where m: "(a, m) \<in> set sc" "P a m" by auto
    with assms(1,2) have "m = n" by (meson eq_key_imp_eq_value)
    with m assms(3) show False by simp
  qed
  then show ?thesis by (simp add: map_of_eq_None_iff)
qed

lemma contribution_lookup:
  assumes "calculate_ltv_impact table sc = Inr (ti, yp, cs)"
    and "distinct (map fst sc)" and "(a, n) \<in> set sc"
  shows "map_of cs a = (if n > 0 then Some (contribution_of (the (map_of table a)) n) else None)"
proof (cases "n > 0")
  case True
  have "map_of cs a = Some (contribution_of (the (map_of table a)) n)"
    unfolding calculate_ltv_impact_result(1) [OF assms(1,2)]
    using assms(2,3) True by (rule map_of_contributions)
  with True show ?thesis by simp
next
  case False
  have "map_of cs a = None"
    unfolding calculate_ltv_impact_result(1) [OF assms(1,2)]
    using assms(3,2) False by (rule map_of_contributions_none)
  with False show ?thesis by simp
qed

lemma annuity_nonneg:
  fixes fee q :: real
  assumes "0 \<le> fee" and "0 \<le> q"
  shows "0 \<le> (\<Sum>j = 1..m. fee * q ^ j)"
  using assms by (intro sum_nonneg mult_nonneg_nonneg zero_le_power)

lemma annuity_mono:
  fixes fee q :: real
  assumes "0 \<le> fee" and "0 \<le> q" and "m \<le> m'"
  shows "(\<Sum>j = 1..m. fee * q ^ j) \<le> (\<Sum>j = 1..m'. fee * q ^ j)"
proof (rule sum_mono2)
  show "finite {1..m'}" by simp
  show "{1..m} \<subseteq> {1..m'}" using assms(3) by auto
  show "0 \<le> fee * q ^ b" for b using assms(1,2) by simp
qed

lemma sorted_map_upt:
  fixes f :: "nat \<Rightarrow> real"
  assumes "\<And>i j. i \<le> j \<Longrightarrow> f i \<le> f j"
  shows "sorted (map f [a..<b])"
  by (simp add: sorted_map sorted_wrt_iff_nth_less assms)

lemma efficiency_loop_ok:
  assumes "list_all (\<lambda>(a, c). map_of seller_counts a \<noteq> None) contributions"
  shows "efficiency_loop seller_counts contributions acc =
     Inr (acc @ map (\<lambda>(a, c). (a, c / of_int (the (map_of seller_counts a))))
                  (filter (\<lambda>(a, c). 0 < the (map_of seller_counts a)) contributions))"
  using assms
proof (induction contributions arbitrary: acc)
  case Nil
  show ?case by simp
next
  case (Cons p contributions)
  obtain a c where p: "p = (a, c)" by (cases p)
  from Cons.prems obtain n where n: "map_of seller_counts a = Some n"
    by (auto simp: p)
  from Cons.prems have rest: "list_all (\<lambda>(a, c). map_of seller_counts a \<noteq> None) contributions"
    by simp
  show ?case
    using Cons.IH [OF rest] by (simp add: p n py_truediv_def)
qed

lemma py_sort_reverse_set:
  "set (py_sort_reverse f xs) = set xs \<and> length (py_sort_reverse f xs) = length xs"
  by (simp add: py_sort_reverse_def)

lemma py_sort_reverse_sorted: "sorted (rev (map f (py_sort_reverse f xs)))"
  by (simp add: py_sort_reverse_def rev_map)

lemma py_sort_reverse_stable:
  "filter (\<lambda>x. f x = k) (py_sort_reverse f xs) = filter (\<lambda>x. f x = k) xs"
proof -
  have "filter (\<lambda>x. f x = k) (py_sort_reverse f xs) =
        rev (filter (\<lambda>x. f x = k) (sort_key f (rev xs)))"
    by (simp add: py_sort_reverse_def rev_filter)
  also have "\<dots> = rev (filter (\<lambda>x. f x = k) (rev xs))"
    by (simp only: sort_key_stable)
  also have "\<dots> = filter (\<lambda>x. f x = k) xs"
    by (simp add: rev_filter)
  finally show ?thesis .
qed

lemma demo_ranking:
  "efficiency_data [(''A'', 10), (''B'', 10)] [(''A'', 500), (''B'', 1000)] =
     Inr [(''B'', 100), (''A'', 50)]"
  by (simp add: efficiency_data_def py_truediv_def py_sort_reverse_def)

lemma demo_ranking_tie:
  "efficiency_data [(''A'', 10), (''B'', 10), (''C'', 0), (''D'', 5)]
     [(''A'', 500), (''B'', 1000), (''C'', 0), (''D'', 250)] =
     Inr [(''B'', 100), (''A'', 50), (''D'', 50)]"
  by (simp add: efficiency_data_def py_truediv_def py_sort_reverse_def)

lemma py_max_Max: "py_max (x # xs) = Inr (Max (set (x # xs)))"
proof -
  have "foldl (\<lambda>m y. if y > m then y else m) x xs = fold max xs x"
    by (induction xs arbitrary: x) (simp_all add: max_def not_less)
  then show ?thesis by (simp add: Max.set_eq_fold del: set_simps)
qed

lemma py_index_first:
  "v \<in> set ys \<Longrightarrow>
     \<exists>i. py_index ys v = Inr i \<and> i < length ys \<and> ys ! i = v \<and> (\<forall>j<i. ys ! j \<noteq> v)"
proof (induction ys)
  case Nil
  then show ?case by simp
next
  case (Cons y ys)
  show ?case
  proof (cases "y = v")
    case True
    then show ?thesis by simp
  next
    case False
    with Cons.prems have "v \<in> set ys" by simp
    from Cons.IH [OF this] obtain i where i: "py_index ys v = Inr i" "i < length ys"
      "ys ! i = v" "\<forall>j<i. ys ! j \<noteq> v" by blast
    have "\<forall>j<Suc i. (y # ys) ! j \<noteq> v"
      using False i(4) by (auto simp: nth_Cons')
    with False i show ?thesis by simp
  qed
qed

section \<open>The claims\<close>

subsection \<open>Survival-compounding model\<close>

text \<open>
  Claim C3. For an archetype of the table, the monthly loop of \<open>simulate_archetype_ltv\<close>
  starts from survival 1, multiplies the survival by \<open>1 - churn\<close> each month and then adds
  \<open>fee * survival\<close> to the running total: after \<open>m\<close> months the survival is
  \<open>(1 - churn) ^ m\<close> and the total is the sum of \<open>fee * (1 - churn) ^ j\<close> for \<open>j = 1..m\<close>
  (the first month is already decayed). The totals at the months 12, 24, ... are the
  per-seller series, which the function returns multiplied by the seller count. With a
  churn of 0.10 and a fee of 50 the value at month 12 is the sum of \<open>50 * 0.9 ^ m\<close> for
  \<open>m = 1..12\<close> (the witness).
\<close>

theorem survival_compounding:
  assumes "map_of table archetype = Some params"
  shows "foldl (month_step params) sim_init [1..int m] =
           \<lparr>survival_probability = (1 - monthly_churn_rate params) ^ m,
            cumulative_ltv =
              (\<Sum>j = 1..m. subscription_fee params * (1 - monthly_churn_rate params) ^ j),
            single_seller_ltv =
              map (\<lambda>y. \<Sum>j = 1..12 * y. subscription_fee params * (1 - monthly_churn_rate params) ^ j)
                [1..<m div 12 + 1]\<rparr> \<and>
         simulate_archetype_ltv table archetype seller_count months =
           Inr (map (\<lambda>y. (\<Sum>j = 1..12 * y. subscription_fee params * (1 - monthly_churn_rate params) ^ j)
                       * of_int seller_count)
                  [1..<nat (months div 12) + 1])"
  using month_loop_state [of params m] simulate_closed [OF assms, of seller_count months]
  by (simp only: simp_thms)

theorem survival_compounding_witness:
  "map_of [(''A'', demo_params)] ''A'' = Some demo_params \<and>
   cumulative_ltv (foldl (month_step demo_params) sim_init [1..12]) = (\<Sum>m = 1..12. 50 * (9 / 10) ^ m) \<and>
   simulate_archetype_ltv [(''A'', demo_params)] ''A'' 1 12 = Inr [\<Sum>m = 1..12. 50 * (9 / 10) ^ m]"
proof -
  have h: "map_of [(''A'', demo_params)] ''A'' = Some demo_params" by simp
  have c: "monthly_churn_rate demo_params = 1 / 10" "subscription_fee demo_params = 50"
    by (simp_all add: demo_params_def)
  from survival_compounding [OF h, of 12 1 12]
  show ?thesis by (simp add: c h)
qed

text \<open>
  Claim C5. A seller count of 0 gives five zeros whatever the table holds, also when the
  archetype is not in the table: \<open>simulate_archetype_ltv\<close> returns before it reads the
  profile, and \<open>calculate_ltv_impact\<close> passes over the archetype, so that the yearly
  projections are five zeros (and no contribution is recorded).
\<close>

theorem zero_count_fast_path:
  "simulate_archetype_ltv table archetype 0 60 = Inr [0, 0, 0, 0, 0] \<and>
   calculate_total_ltv table [(archetype, 0)] = Inr ([0, 0, 0, 0, 0], [(archetype, 0)]) \<and>
   calculate_ltv_impact data_table [(archetype, 0)] = Inr (0, [0, 0, 0, 0, 0], [])"
proof -
  have a: "simulate_archetype_ltv table archetype 0 60 = Inr [0, 0, 0, 0, 0]"
    by (rule simulate_zero)
  have b: "calculate_total_ltv table [(archetype, 0)] = Inr ([0, 0, 0, 0, 0], [(archetype, 0)])"
    by (simp add: calculate_total_ltv_def a upt_5 numeral_eq_Suc)
  have c: "calculate_ltv_impact data_table [(archetype, 0)] = Inr (0, [0, 0, 0, 0, 0], [])"
    by (simp add: calculate_ltv_impact_def yearly_projections_of_def upt_5 py_sum_def)
  from a b c show ?thesis by simp
qed

subsection \<open>Annual growth/retention model\<close>

text \<open>
  Claim C4. In \<open>calculate_ltv_impact\<close>, an archetype of the table with a positive count
  \<open>n\<close> gets the yearly series whose value for the year \<open>y = 1..5\<close> is
  \<open>avg_ltv * (1 + growth_rate) ^ y * remaining\<close> with \<open>remaining = n * retention_rate ^ (y - 1)\<close>:
  the year is booked with the sellers that remain, and the retention rate is applied
  afterwards (after \<open>k\<close> years \<open>n * retention_rate ^ k\<close> sellers remain). For a base of
  1000, a growth of 0.10, a retention of 0.80 and 100 sellers the first three years are
  110000, 96800 and 85184 (the witness).
\<close>

theorem annual_growth_retention:
  assumes "calculate_ltv_impact table seller_counts = Inr (total_impact, yearly_projections, contributions)"
    and "distinct (map fst seller_counts)"
    and "(archetype, n) \<in> set seller_counts" and "n > 0"
    and "map_of table archetype = Some data"
  shows "foldl (year_step data) ([], of_int n) [1..<Suc k] =
           (map (\<lambda>y. avg_ltv data * (1 + growth_rate data) ^ y *
                      (of_int n * retention_rate data ^ (y - 1))) [1..<Suc k],
            of_int n * retention_rate data ^ k) \<and>
         map_of contributions archetype = Some (contribution_of data n) \<and>
         yearly (contribution_of data n) =
           map (\<lambda>y. avg_ltv data * (1 + growth_rate data) ^ y *
                      (of_int n * retention_rate data ^ (y - 1))) [1..<6]"
proof -
  have loop: "foldl (year_step data) ([], of_int n) [1..<Suc k] =
           (map (\<lambda>y. avg_ltv data * (1 + growth_rate data) ^ y *
                      (of_int n * retention_rate data ^ (y - 1))) [1..<Suc k],
            of_int n * retention_rate data ^ k)"
    by (rule year_loop_state)
  have "map_of contributions archetype = Some (contribution_of (the (map_of table archetype)) n)"
    unfolding calculate_ltv_impact_result(1) [OF assms(1,2)]
    using assms(2,3,4) by (rule map_of_contributions)
  then have entry: "map_of contributions archetype = Some (contribution_of data n)"
    by (simp add: assms(5))
  have series: "yearly (contribution_of data n) =
           map (\<lambda>y. avg_ltv data * (1 + growth_rate data) ^ y *
                      (of_int n * retention_rate data ^ (y - 1))) [1..<6]"
    by (simp only: contribution_of_simps yearly_ltv_of_closed)
  from loop entry series show ?thesis by (simp only: simp_thms)
qed

theorem annual_growth_retention_witness:
  "calculate_ltv_impact [(''A'', demo_data)] [(''A'', 100)] =
     Inr (4329124096 / 10000,
          [110000, 96800, 85184, 7496192 / 100, 659664896 / 10000],
          [(''A'', contribution_of demo_data 100)]) \<and>
   distinct (map fst [(''A'', 100::int)]) \<and> (''A'', 100) \<in> set [(''A'', 100::int)] \<and> (100::int) > 0 \<and>
   map_of [(''A'', demo_data)] ''A'' = Some demo_data \<and>
   map_of [(''A'', contribution_of demo_data 100)] ''A'' = Some (contribution_of demo_data 100) \<and>
   yearly (contribution_of demo_data 100) = [110000, 96800, 85184, 7496192 / 100, 659664896 / 10000]"
proof -
  have run: "calculate_ltv_impact [(''A'', demo_data)] [(''A'', 100)] =
     Inr (4329124096 / 10000,
          [110000, 96800, 85184, 7496192 / 100, 659664896 / 10000],
          [(''A'', contribution_of demo_data 100)])"
    by (simp add: calculate_ltv_impact_single demo_yearly py_sum_def)
  have d: "distinct (map fst [(''A'', 100::int)])" by simp
  have m: "(''A'', 100) \<in> set [(''A'', 100::int)]" by simp
  have p: "(100::int) > 0" by simp
  have t: "map_of [(''A'', demo_data)] ''A'' = Some demo_data" by simp
  have y: "yearly (contribution_of demo_data 100) =
             [110000, 96800, 85184, 7496192 / 100, 659664896 / 10000]"
    using annual_growth_retention [OF run d m p t, of 5, THEN conjunct2, THEN conjunct2]
    by (simp only: upt_1_6 list.map) (simp add: demo_data_def power_divide)
  from run d m p t y show ?thesis by simp
qed

subsection \<open>Aggregation\<close>

text \<open>
  Claim C1, as amended. For an allocation with distinct archetypes:
  the contributions returned by \<open>calculate_total_ltv\<close> sum to the last element of its
  yearly totals (the series is cumulative and a contribution is its fifth value); the
  \<open>total\<close>s returned by \<open>calculate_ltv_impact\<close> sum to its \<open>total_impact\<close>, which is the
  sum of all five yearly projections (the series is not cumulative and a \<open>total\<close> is the
  sum of the archetype's five years). Over the reals the equalities are exact.
\<close>

theorem aggregation_consistency:
  "(distinct (map fst seller_counts) \<and>
    calculate_total_ltv table seller_counts = Inr (total_ltv_by_year, contributions) \<longrightarrow>
      py_sum (map snd contributions) = last total_ltv_by_year) \<and>
   (distinct (map fst slider_values) \<and>
    calculate_ltv_impact data_table slider_values =
      Inr (total_impact, yearly_projections, archetype_contributions) \<longrightarrow>
      py_sum (map (total \<circ> snd) archetype_contributions) = total_impact \<and>
      py_sum yearly_projections = total_impact)"
  using sum_contributions_survival sum_contributions_annual by blast

theorem aggregation_consistency_witness:
  "distinct (map fst [(''A'', 2::int)]) \<and>
   calculate_total_ltv [(''A'', demo_params)] [(''A'', 2)] =
     Inr (map (\<lambda>y. (\<Sum>j = 1..12 * y. 50 * (9 / 10) ^ j) * 2) [1..<6],
          [(''A'', last (map (\<lambda>y. (\<Sum>j = 1..12 * y. 50 * (9 / 10) ^ j) * 2) [1..<6]))]) \<and>
   py_sum (map snd [(''A'', last (map (\<lambda>y. (\<Sum>j = 1..12 * y. 50 * (9 / 10) ^ j) * 2) [1..<6]))]) =
     last (map (\<lambda>y. (\<Sum>j = 1..12 * y. 50 * (9 / 10) ^ j) * 2) [1..<6]) \<and>
   distinct (map fst [(''A'', 100::int)]) \<and>
   calculate_ltv_impact [(''A'', demo_data)] [(''A'', 100)] =
     Inr (4329124096 / 10000,
          [110000, 96800, 85184, 7496192 / 100, 659664896 / 10000],
          [(''A'', contribution_of demo_data 100)]) \<and>
   py_sum (map (total \<circ> snd) [(''A'', contribution_of demo_data 100)]) = 4329124096 / 10000 \<and>
   py_sum [110000, 96800, 85184, 7496192 / 100, 659664896 / 10000] = 4329124096 / 10000"
proof -
  have d1: "distinct (map fst [(''A'', 2::int)])" by simp
  have r1: "calculate_total_ltv [(''A'', demo_params)] [(''A'', 2)] =
     Inr (map (\<lambda>y. (\<Sum>j = 1..12 * y. 50 * (9 / 10) ^ j) * 2) [1..<6],
          [(''A'', last (map (\<lambda>y. (\<Sum>j = 1..12 * y. 50 * (9 / 10) ^ j) * 2) [1..<6]))])"
    using demo_simulate by (rule calculate_total_ltv_single)
  have d2: "distinct (map fst [(''A'', 100::int)])" by simp
  have r2: "calculate_ltv_impact [(''A'', demo_data)] [(''A'', 100)] =
     Inr (4329124096 / 10000,
          [110000, 96800, 85184, 7496192 / 100, 659664896 / 10000],
          [(''A'', contribution_of demo_data 100)])"
    by (simp add: calculate_ltv_impact_single demo_yearly py_sum_def)
  note t = aggregation_consistency [of "[(''A'', 2)]" "[(''A'', demo_params)]" _ _
      "[(''A'', 100)]" "[(''A'', demo_data)]"]
  from t [THEN conjunct1, rule_format, OF conjI, OF d1 r1]
    t [THEN conjunct2, rule_format, OF conjI, OF d2 r2] d1 r1 d2 r2
  show ?thesis by (simp only: simp_thms)
qed

text \<open>
  The claim C1 as stated fails for \<open>calculate_ltv_impact\<close>: with ten Rising Star sellers
  the \<open>total\<close>s sum to more than twice the last yearly projection.
\<close>

theorem aggregation_consistency_counterexample:
  "\<not> isl (calculate_ltv_impact ARCHETYPE_DATA slider_counts) \<and>
   2 * last (fst (snd (projr (calculate_ltv_impact ARCHETYPE_DATA slider_counts)))) <
     py_sum (map (total \<circ> snd)
       (snd (snd (projr (calculate_ltv_impact ARCHETYPE_DATA slider_counts)))))"
  apply (simp only: slider_run)
  apply (simp add: contribution_of_simps)
  apply (simp only: yearly_ltv_of_closed upt_1_6 list.map)
  apply (simp add: ARCHETYPE_DATA_def py_sum_def power_divide)
  done

subsection \<open>Failures\<close>

text \<open>
  Claim C2, as amended. The statement is about the inputs on which Python's float
  arithmetic cannot raise: counts of a magnitude below \<open>2 ^ 1023\<close>, growth factors
  \<open>\<bar>1 + growth_rate\<bar>\<close> up to \<open>2 ^ 200\<close> for the archetypes that are projected, and the
  horizon of 60 months that every caller uses. (Beyond the float range the conversion of a
  count to a float and the power \<^verbatim>\<open>(1 + growth_rate) ** year\<close> raise \<^verbatim>\<open>OverflowError\<close>, which
  the reals of this model do not have.) On these inputs the only failure of a projection is
  the \<open>KeyError\<close> of the table lookup, and it is raised exactly for an archetype absent from
  the table whose count is not zero (\<open>simulate_archetype_ltv\<close>) or is positive
  (\<open>calculate_ltv_impact\<close>): with no such archetype the projection returns a value. No count
  is rejected: a negative count is multiplied into the series by \<open>simulate_archetype_ltv\<close>
  and passed over by \<open>calculate_ltv_impact\<close>. The \<open>KeyError\<close> of \<open>simulate_archetype_ltv\<close>
  comes before any arithmetic, so it is stated for every count and horizon.
\<close>

theorem projection_errors:
  "(seller_count \<noteq> 0 \<and> map_of table archetype = None \<longrightarrow>
      simulate_archetype_ltv table archetype seller_count months = Inl (KeyError archetype)) \<and>
   ((seller_count = 0 \<or> map_of table archetype \<noteq> None) \<and> \<bar>seller_count\<bar> < 2 ^ 1023 \<longrightarrow>
      \<not> isl (simulate_archetype_ltv table archetype seller_count 60)) \<and>
   (list_all (\<lambda>(a, n). 0 < n \<longrightarrow> n < 2 ^ 1023 \<and>
                (case map_of data_table a of None \<Rightarrow> True
                 | Some data \<Rightarrow> \<bar>1 + growth_rate data\<bar> \<le> 2 ^ 200)) seller_counts \<longrightarrow>
      ((\<exists>(a, n) \<in> set seller_counts. 0 < n \<and> map_of data_table a = None) \<longrightarrow>
         (\<exists>a n. (a, n) \<in> set seller_counts \<and> 0 < n \<and> map_of data_table a = None \<and>
                calculate_ltv_impact data_table seller_counts = Inl (KeyError a))) \<and>
      ((\<forall>(a, n) \<in> set seller_counts. 0 < n \<longrightarrow> map_of data_table a \<noteq> None) \<longrightarrow>
         \<not> isl (calculate_ltv_impact data_table seller_counts)))"
proof (intro conjI impI)
  assume "seller_count \<noteq> 0 \<and> map_of table archetype = None"
  then show "simulate_archetype_ltv table archetype seller_count months = Inl (KeyError archetype)"
    by (simp add: simulate_unknown)
next
  assume "(seller_count = 0 \<or> map_of table archetype \<noteq> None) \<and> \<bar>seller_count\<bar> < 2 ^ 1023"
  then have "seller_count = 0 \<or> map_of table archetype \<noteq> None" by (rule conjunct1)
  then show "\<not> isl (simulate_archetype_ltv table archetype seller_count 60)"
    using simulate_known simulate_zero_any by blast
next
  assume "\<exists>(a, n) \<in> set seller_counts. 0 < n \<and> map_of data_table a = None"
  then show "\<exists>a n. (a, n) \<in> set seller_counts \<and> 0 < n \<and> map_of data_table a = None \<and>
             calculate_ltv_impact data_table seller_counts = Inl (KeyError a)"
    by (rule calculate_ltv_impact_fail)
next
  assume "\<forall>(a, n) \<in> set seller_counts. 0 < n \<longrightarrow> map_of data_table a \<noteq> None"
  then show "\<not> isl (calculate_ltv_impact data_table seller_counts)"
    by (rule calculate_ltv_impact_total)
qed

theorem projection_errors_witness:
  "(1::int) \<noteq> 0 \<and> map_of ARCHETYPE_PARAMS ''Nobody'' = None \<and>
   simulate_archetype_ltv ARCHETYPE_PARAMS ''Nobody'' 1 60 = Inl (KeyError ''Nobody'') \<and>
   map_of ARCHETYPE_PARAMS ''Failed'' \<noteq> None \<and> \<bar>- 1 :: int\<bar> < 2 ^ 1023 \<and>
   \<not> isl (simulate_archetype_ltv ARCHETYPE_PARAMS ''Failed'' (- 1) 60) \<and>
   list_all (\<lambda>(a, n). 0 < n \<longrightarrow> n < 2 ^ 1023 \<and>
                (case map_of ARCHETYPE_DATA a of None \<Rightarrow> True
                 | Some data \<Rightarrow> \<bar>1 + growth_rate data\<bar> \<le> 2 ^ 200)) [(''Nobody'', 10::int)] \<and>
   map_of ARCHETYPE_DATA ''Nobody'' = None \<and>
   calculate_ltv_impact ARCHETYPE_DATA [(''Nobody'', 10)] = Inl (KeyError ''Nobody'') \<and>
   list_all (\<lambda>(a, n). 0 < n \<longrightarrow> n < 2 ^ 1023 \<and>
                (case map_of ARCHETYPE_DATA a of None \<Rightarrow> True
                 | Some data \<Rightarrow> \<bar>1 + growth_rate data\<bar> \<le> 2 ^ 200))
     [(''Nobody'', - 10), (''Rising_Star'', 10::int)] \<and>
   map_of ARCHETYPE_DATA ''Rising_Star'' \<noteq> None \<and>
   \<not> isl (calculate_ltv_impact ARCHETYPE_DATA [(''Nobody'', - 10), (''Rising_Star'', 10)])"
proof -
  have a: "map_of ARCHETYPE_PARAMS ''Nobody'' = None" by (simp add: ARCHETYPE_PARAMS_def)
  have b: "map_of ARCHETYPE_PARAMS ''Failed'' \<noteq> None" by (simp add: ARCHETYPE_PARAMS_def)
  have b': "\<bar>- 1 :: int\<bar> < 2 ^ 1023" by simp
  have c: "map_of ARCHETYPE_DATA ''Nobody'' = None" by (simp add: ARCHETYPE_DATA_def)
  have d: "map_of ARCHETYPE_DATA ''Rising_Star'' \<noteq> None" by (simp add: ARCHETYPE_DATA_def)
  have r1: "list_all (\<lambda>(a, n). 0 < n \<longrightarrow> n < 2 ^ 1023 \<and>
                (case map_of ARCHETYPE_DATA a of None \<Rightarrow> True
                 | Some data \<Rightarrow> \<bar>1 + growth_rate data\<bar> \<le> 2 ^ 200)) [(''Nobody'', 10::int)]"
    by (simp add: c)
  have r2: "list_all (\<lambda>(a, n). 0 < n \<longrightarrow> n < 2 ^ 1023 \<and>
                (case map_of ARCHETYPE_DATA a of None \<Rightarrow> True
                 | Some data \<Rightarrow> \<bar>1 + growth_rate data\<bar> \<le> 2 ^ 200))
     [(''Nobody'', - 10), (''Rising_Star'', 10::int)]"
    by (simp add: ARCHETYPE_DATA_def)
  note t1 = projection_errors [of 1 ARCHETYPE_PARAMS "''Nobody''" 60 ARCHETYPE_DATA
      "[(''Nobody'', 10)]"]
  note t2 = projection_errors [of "- 1" ARCHETYPE_PARAMS "''Failed''" 60 ARCHETYPE_DATA
      "[(''Nobody'', - 10), (''Rising_Star'', 10)]"]
  have 1: "simulate_archetype_ltv ARCHETYPE_PARAMS ''Nobody'' 1 60 = Inl (KeyError ''Nobody'')"
    using t1 a by simp
  have 2: "\<not> isl (simulate_archetype_ltv ARCHETYPE_PARAMS ''Failed'' (- 1) 60)"
    using t2 b b' by simp
  have 3: "calculate_ltv_impact ARCHETYPE_DATA [(''Nobody'', 10)] = Inl (KeyError ''Nobody'')"
    using t1 [THEN conjunct2, THEN conjunct2, rule_format, OF r1, THEN conjunct1] c by simp
  have 4: "\<not> isl (calculate_ltv_impact ARCHETYPE_DATA [(''Nobody'', - 10), (''Rising_Star'', 10)])"
    using t2 [THEN conjunct2, THEN conjunct2, rule_format, OF r2, THEN conjunct2] d by simp
  from a b b' c d r1 r2 1 2 3 4 show ?thesis by (simp only: simp_thms)
qed

text \<open>
  The claim C2 as stated fails: a negative count raises nothing in either model, and an
  archetype that is not in the table raises nothing when its count is 0.
\<close>

theorem projection_errors_counterexample:
  "\<not> isl (simulate_archetype_ltv ARCHETYPE_PARAMS ''Failed'' (- 1) 60) \<and>
   calculate_ltv_impact ARCHETYPE_DATA [(''Rising_Star'', - 10)] = Inr (0, [0, 0, 0, 0, 0], []) \<and>
   simulate_archetype_ltv ARCHETYPE_PARAMS ''Nobody'' 0 60 = Inr [0, 0, 0, 0, 0] \<and>
   calculate_ltv_impact ARCHETYPE_DATA [(''Nobody'', 0)] = Inr (0, [0, 0, 0, 0, 0], [])"
proof -
  have "map_of ARCHETYPE_PARAMS ''Failed'' \<noteq> None" by (simp add: ARCHETYPE_PARAMS_def)
  then have 1: "\<not> isl (simulate_archetype_ltv ARCHETYPE_PARAMS ''Failed'' (- 1) 60)"
    by (rule simulate_known)
  have 2: "calculate_ltv_impact ARCHETYPE_DATA [(''Rising_Star'', - 10)] = Inr (0, [0, 0, 0, 0, 0], [])"
    by (simp add: calculate_ltv_impact_def yearly_projections_of_def upt_5 py_sum_def)
  have 3: "simulate_archetype_ltv ARCHETYPE_PARAMS ''Nobody'' 0 60 = Inr [0, 0, 0, 0, 0]"
    by (rule simulate_zero)
  have 4: "calculate_ltv_impact ARCHETYPE_DATA [(''Nobody'', 0)] = Inr (0, [0, 0, 0, 0, 0], [])"
    by (simp add: calculate_ltv_impact_def yearly_projections_of_def upt_5 py_sum_def)
  from 1 2 3 4 show ?thesis by simp
qed

subsection \<open>Linearity, sign and order\<close>

text \<open>
  Claim C6. Doubling the count doubles the contribution. For \<open>simulate_archetype_ltv\<close> the
  series for the count \<open>2 * k\<close> is twice the series for \<open>k\<close>, element by element, and the
  two calls fail together (for every \<open>k\<close>, also 0 and the negative ones). For
  \<open>calculate_ltv_impact\<close>, in two allocations that give an archetype the counts \<open>k\<close> and
  \<open>2 * k\<close> the archetype's contribution in the second is the one in the first with its total
  and its yearly values doubled; for \<open>k \<le> 0\<close> there is no contribution in either.
\<close>

theorem linear_in_count:
  "simulate_archetype_ltv table archetype (2 * k) months =
     (case simulate_archetype_ltv table archetype k months of
        Inl e \<Rightarrow> Inl e | Inr ys \<Rightarrow> Inr (map ((*) 2) ys)) \<and>
   (distinct (map fst seller_counts) \<and> (archetype, k) \<in> set seller_counts \<and>
    calculate_ltv_impact data_table seller_counts = Inr (total_impact, yearly_projections, contributions) \<and>
    distinct (map fst seller_counts') \<and> (archetype, 2 * k) \<in> set seller_counts' \<and>
    calculate_ltv_impact data_table seller_counts' = Inr (total_impact', yearly_projections', contributions')
    \<longrightarrow> map_of contributions' archetype = map_option twice (map_of contributions archetype))"
proof (intro conjI impI)
  show "simulate_archetype_ltv table archetype (2 * k) months =
     (case simulate_archetype_ltv table archetype k months of
        Inl e \<Rightarrow> Inl e | Inr ys \<Rightarrow> Inr (map ((*) 2) ys))"
    by (rule simulate_double)
next
  assume h: "distinct (map fst seller_counts) \<and> (archetype, k) \<in> set seller_counts \<and>
    calculate_ltv_impact data_table seller_counts = Inr (total_impact, yearly_projections, contributions) \<and>
    distinct (map fst seller_counts') \<and> (archetype, 2 * k) \<in> set seller_counts' \<and>
    calculate_ltv_impact data_table seller_counts' = Inr (total_impact', yearly_projections', contributions')"
  then have a: "map_of contributions archetype =
      (if k > 0 then Some (contribution_of (the (map_of data_table archetype)) k) else None)"
    using contribution_lookup by blast
  from h have b: "map_of contributions' archetype =
      (if 2 * k > 0 then Some (contribution_of (the (map_of data_table archetype)) (2 * k)) else None)"
    using contribution_lookup by blast
  show "map_of contributions' archetype = map_option twice (map_of contributions archetype)"
    unfolding a b by (simp add: contribution_of_double)
qed

theorem linear_in_count_witness:
  "distinct (map fst [(''A'', 100::int)]) \<and> (''A'', 100) \<in> set [(''A'', 100::int)] \<and>
   calculate_ltv_impact [(''A'', demo_data)] [(''A'', 100)] =
     Inr (py_sum (yearly_ltv_of demo_data 100), yearly_ltv_of demo_data 100,
          [(''A'', contribution_of demo_data 100)]) \<and>
   distinct (map fst [(''A'', 200::int)]) \<and> (''A'', 2 * 100) \<in> set [(''A'', 200::int)] \<and>
   calculate_ltv_impact [(''A'', demo_data)] [(''A'', 200)] =
     Inr (py_sum (yearly_ltv_of demo_data 200), yearly_ltv_of demo_data 200,
          [(''A'', contribution_of demo_data 200)]) \<and>
   contribution_of demo_data 200 = twice (contribution_of demo_data 100) \<and>
   yearly (contribution_of demo_data 200) =
     [220000, 193600, 170368, 14992384 / 100, 1319329792 / 10000]"
proof -
  have d1: "distinct (map fst [(''A'', 100::int)])" and m1: "(''A'', 100) \<in> set [(''A'', 100::int)]"
    and d2: "distinct (map fst [(''A'', 200::int)])" and m2: "(''A'', 2 * 100) \<in> set [(''A'', 200::int)]"
    by simp_all
  have t: "map_of [(''A'', demo_data)] ''A'' = Some demo_data" by simp
  have r1: "calculate_ltv_impact [(''A'', demo_data)] [(''A'', 100)] =
     Inr (py_sum (yearly_ltv_of demo_data 100), yearly_ltv_of demo_data 100,
          [(''A'', contribution_of demo_data 100)])"
    using t by (rule calculate_ltv_impact_single) simp
  have r2: "calculate_ltv_impact [(''A'', demo_data)] [(''A'', 200)] =
     Inr (py_sum (yearly_ltv_of demo_data 200), yearly_ltv_of demo_data 200,
          [(''A'', contribution_of demo_data 200)])"
    using t by (rule calculate_ltv_impact_single) simp
  from linear_in_count [THEN conjunct2, rule_format, of "[(''A'', 100)]" "''A''" 100
      "[(''A'', demo_data)]" _ _ _ "[(''A'', 200)]"] d1 m1 r1 d2 m2 r2
  have e: "contribution_of demo_data 200 = twice (contribution_of demo_data 100)"
    by simp
  have y: "yearly (contribution_of demo_data 200) =
     [220000, 193600, 170368, 14992384 / 100, 1319329792 / 10000]"
    unfolding e by (simp add: contribution_of_simps demo_yearly)
  from d1 m1 r1 d2 m2 r2 e y show ?thesis by (simp only: simp_thms)
qed

text \<open>
  Claim C7. With a churn rate in (0,1), a fee that is not negative and a count that is
  not negative (1 for the per-seller series), the series returned by
  \<open>simulate_archetype_ltv\<close> has no negative element and does not decrease from one year to
  the next. With a base revenue and a growth rate that are not negative and a retention
  rate in (0,1), no yearly value of the annual model is negative.
\<close>

theorem nonnegative_monotone:
  "(map_of table archetype = Some params \<and>
    0 < monthly_churn_rate params \<and> monthly_churn_rate params < 1 \<and>
    0 \<le> subscription_fee params \<and> 0 \<le> seller_count \<longrightarrow>
      (\<exists>ys. simulate_archetype_ltv table archetype seller_count months = Inr ys \<and>
            list_all (\<lambda>v. 0 \<le> v) ys \<and> sorted ys)) \<and>
   (0 \<le> avg_ltv data \<and> 0 \<le> growth_rate data \<and>
    0 < retention_rate data \<and> retention_rate data < 1 \<and> 0 \<le> count \<longrightarrow>
      list_all (\<lambda>v. 0 \<le> v) (yearly_ltv_of data count))"
proof (intro conjI impI)
  assume h: "map_of table archetype = Some params \<and>
    0 < monthly_churn_rate params \<and> monthly_churn_rate params < 1 \<and>
    0 \<le> subscription_fee params \<and> 0 \<le> seller_count"
  define q where "q = 1 - monthly_churn_rate params"
  define fee where "fee = subscription_fee params"
  define f where "f y = (\<Sum>j = 1..12 * y. fee * q ^ j) * of_int seller_count" for y :: nat
  from h have q: "0 \<le> q" and fee: "0 \<le> fee" and n: "0 \<le> (of_int seller_count :: real)"
    by (simp_all add: q_def fee_def)
  from h have run: "simulate_archetype_ltv table archetype seller_count months =
      Inr (map f [1..<nat (months div 12) + 1])"
    by (simp add: simulate_closed f_def q_def fee_def del: upt_Suc)
  have nonneg: "0 \<le> f y" for y
    unfolding f_def using annuity_nonneg [OF fee q] n by (rule mult_nonneg_nonneg)
  have mono: "f i \<le> f j" if "i \<le> j" for i j
    unfolding f_def using annuity_mono [OF fee q, of "12 * i" "12 * j"] that n
    by (simp add: mult_right_mono)
  have "list_all (\<lambda>v. 0 \<le> v) (map f [1..<nat (months div 12) + 1])"
    by (simp add: list_all_iff nonneg del: upt_Suc)
  moreover have "sorted (map f [1..<nat (months div 12) + 1])"
    using mono by (rule sorted_map_upt)
  ultimately show "\<exists>ys. simulate_archetype_ltv table archetype seller_count months = Inr ys \<and>
            list_all (\<lambda>v. 0 \<le> v) ys \<and> sorted ys"
    using run by blast
next
  assume h: "0 \<le> avg_ltv data \<and> 0 \<le> growth_rate data \<and>
    0 < retention_rate data \<and> retention_rate data < 1 \<and> 0 \<le> count"
  then have "0 \<le> avg_ltv data * (1 + growth_rate data) ^ y *
               (of_int count * retention_rate data ^ (y - 1))" for y
    by (intro mult_nonneg_nonneg zero_le_power) simp_all
  then show "list_all (\<lambda>v. 0 \<le> v) (yearly_ltv_of data count)"
    by (simp add: yearly_ltv_of_closed list_all_iff del: upt_Suc)
qed

theorem nonnegative_monotone_witness:
  "map_of [(''A'', demo_params)] ''A'' = Some demo_params \<and>
   0 < monthly_churn_rate demo_params \<and> monthly_churn_rate demo_params < 1 \<and>
   0 \<le> subscription_fee demo_params \<and> (0::int) \<le> 1 \<and>
   (\<exists>ys. simulate_archetype_ltv [(''A'', demo_params)] ''A'' 1 60 = Inr ys \<and>
         list_all (\<lambda>v. 0 \<le> v) ys \<and> sorted ys) \<and>
   0 \<le> avg_ltv demo_data \<and> 0 \<le> growth_rate demo_data \<and>
   0 < retention_rate demo_data \<and> retention_rate demo_data < 1 \<and> (0::int) \<le> 100 \<and>
   list_all (\<lambda>v. 0 \<le> v) (yearly_ltv_of demo_data 100)"
proof -
  have p: "map_of [(''A'', demo_params)] ''A'' = Some demo_params \<and>
    0 < monthly_churn_rate demo_params \<and> monthly_churn_rate demo_params < 1 \<and>
    0 \<le> subscription_fee demo_params \<and> (0::int) \<le> 1"
    by (simp add: demo_params_def)
  have d: "0 \<le> avg_ltv demo_data \<and> 0 \<le> growth_rate demo_data \<and>
    0 < retention_rate demo_data \<and> retention_rate demo_data < 1 \<and> (0::int) \<le> 100"
    by (simp add: demo_data_def)
  note t = nonnegative_monotone [of "[(''A'', demo_params)]" "''A''" demo_params 1 60 demo_data 100]
  from t [THEN conjunct1, rule_format, OF p] t [THEN conjunct2, rule_format, OF d] p d
  show ?thesis by (simp only: simp_thms)
qed

text \<open>
  Claim C10. The contributions returned by \<open>calculate_ltv_impact\<close> have exactly the
  archetypes with a positive count as keys, in the order of the allocation: an archetype
  with a count of 0 or less gets no entry. When no count is positive the result is a total
  impact of 0, five yearly projections of 0 and no contribution, whatever the table holds.
\<close>

theorem nonpositive_counts_omitted:
  "(distinct (map fst seller_counts) \<and>
    calculate_ltv_impact table seller_counts = Inr (total_impact, yearly_projections, contributions)
    \<longrightarrow> map fst contributions = map fst (filter (\<lambda>(archetype, count). 0 < count) seller_counts)) \<and>
   (list_all (\<lambda>(archetype, count). count \<le> 0) seller_counts'
    \<longrightarrow> calculate_ltv_impact table seller_counts' = Inr (0, [0, 0, 0, 0, 0], []))"
proof (intro conjI impI)
  assume "distinct (map fst seller_counts) \<and>
    calculate_ltv_impact table seller_counts = Inr (total_impact, yearly_projections, contributions)"
  then have "contributions = map (\<lambda>(a, n). (a, contribution_of (the (map_of table a)) n))
                (filter (\<lambda>(a, n). n > 0) seller_counts)"
    using calculate_ltv_impact_result(1) by blast
  then show "map fst contributions = map fst (filter (\<lambda>(archetype, count). 0 < count) seller_counts)"
    by (simp add: comp_def case_prod_unfold)
next
  assume "list_all (\<lambda>(archetype, count). count \<le> 0) seller_counts'"
  then have "\<forall>(a, n) \<in> set seller_counts'. n \<le> 0" by (simp add: list_all_iff)
  then have "ltv_impact_loop table seller_counts' (0, []) = Inr (0, [])"
    by (rule calculate_ltv_impact_nonpositive)
  then show "calculate_ltv_impact table seller_counts' = Inr (0, [0, 0, 0, 0, 0], [])"
    by (simp add: calculate_ltv_impact_def yearly_projections_of_def upt_5 py_sum_def)
qed

theorem nonpositive_counts_omitted_witness:
  "distinct (map fst [(''Nobody'', - 10), (''A'', 100), (''B'', 0::int)]) \<and>
   calculate_ltv_impact [(''A'', demo_data)] [(''Nobody'', - 10), (''A'', 100), (''B'', 0)] =
     Inr (py_sum (yearly_ltv_of demo_data 100), yearly_ltv_of demo_data 100,
          [(''A'', contribution_of demo_data 100)]) \<and>
   map fst [(''A'', contribution_of demo_data 100)] = [''A''] \<and>
   list_all (\<lambda>(archetype, count). count \<le> 0) [(''Nobody'', - 10), (''B'', 0::int)] \<and>
   calculate_ltv_impact [(''A'', demo_data)] [(''Nobody'', - 10), (''B'', 0)] = Inr (0, [0, 0, 0, 0, 0], [])"
proof -
  have d: "distinct (map fst [(''Nobody'', - 10), (''A'', 100), (''B'', 0::int)])" by simp
  have r: "calculate_ltv_impact [(''A'', demo_data)] [(''Nobody'', - 10), (''A'', 100), (''B'', 0)] =
     Inr (py_sum (yearly_ltv_of demo_data 100), yearly_ltv_of demo_data 100,
          [(''A'', contribution_of demo_data 100)])"
    by (simp add: calculate_ltv_impact_def yearly_projections_single contribution_of_simps
          yearly_ltv_of_length)
  have l: "list_all (\<lambda>(archetype, count). count \<le> 0) [(''Nobody'', - 10), (''B'', 0::int)]" by simp
  note t = nonpositive_counts_omitted [of "[(''Nobody'', - 10), (''A'', 100), (''B'', 0)]"
      "[(''A'', demo_data)]" _ _ _ "[(''Nobody'', - 10), (''B'', 0)]"]
  from t [THEN conjunct1, rule_format, OF conjI, OF d r] t [THEN conjunct2, rule_format, OF l] d r l
  show ?thesis by simp
qed

subsection \<open>Derived analytics\<close>

text \<open>
  Claim C8. When every archetype of the contributions has a count, the efficiency ranking
  is computed without a failure (no division by a zero count) and
  \<^item> holds exactly the archetypes whose count is positive, each once, with the efficiency
    \<open>contribution / count\<close>;
  \<^item> is in descending order of efficiency;
  \<^item> keeps archetypes of equal efficiency in the order of the contributions, which is the
    order in which the archetypes are declared.
  For the contributions A: 500, B: 1000 and the counts A: 10, B: 10 the ranking is B, A
  (the witness, which also ranks a tie and passes over a zero count).
\<close>

theorem efficiency_ranking:
  assumes "list_all (\<lambda>(archetype, contribution). map_of seller_counts archetype \<noteq> None)
             archetype_contributions"
  shows "\<exists>ranking.
     efficiency_data seller_counts archetype_contributions = Inr ranking \<and>
     set ranking =
       set (map (\<lambda>(archetype, contribution).
                    (archetype, contribution / of_int (the (map_of seller_counts archetype))))
              (filter (\<lambda>(archetype, contribution). 0 < the (map_of seller_counts archetype))
                 archetype_contributions)) \<and>
     length ranking =
       length (filter (\<lambda>(archetype, contribution). 0 < the (map_of seller_counts archetype))
                 archetype_contributions) \<and>
     sorted (rev (map snd ranking)) \<and>
     (\<forall>e. filter (\<lambda>x. snd x = e) ranking =
          filter (\<lambda>x. snd x = e)
            (map (\<lambda>(archetype, contribution).
                    (archetype, contribution / of_int (the (map_of seller_counts archetype))))
              (filter (\<lambda>(archetype, contribution). 0 < the (map_of seller_counts archetype))
                 archetype_contributions)))"
proof -
  define unsorted where "unsorted =
     map (\<lambda>(archetype, contribution).
            (archetype, contribution / real_of_int (the (map_of seller_counts archetype))))
       (filter (\<lambda>(archetype, contribution). 0 < the (map_of seller_counts archetype))
          archetype_contributions)"
  have loop: "efficiency_loop seller_counts archetype_contributions [] = Inr unsorted"
    using efficiency_loop_ok [OF assms, of "[]"] by (simp add: unsorted_def)
  have run: "efficiency_data seller_counts archetype_contributions =
               Inr (py_sort_reverse snd unsorted)"
    by (simp add: efficiency_data_def loop py_sort_reverse_def)
  have "set (py_sort_reverse snd unsorted) = set unsorted"
    by (simp add: py_sort_reverse_set)
  moreover have "length (py_sort_reverse snd unsorted) =
      length (filter (\<lambda>(archetype, contribution). 0 < the (map_of seller_counts archetype))
                 archetype_contributions)"
    by (simp add: py_sort_reverse_set unsorted_def)
  moreover have "sorted (rev (map snd (py_sort_reverse snd unsorted)))"
    by (rule py_sort_reverse_sorted)
  moreover have "\<forall>e. filter (\<lambda>x. snd x = e) (py_sort_reverse snd unsorted) =
                     filter (\<lambda>x. snd x = e) unsorted"
    by (simp add: py_sort_reverse_stable)
  ultimately show ?thesis
    unfolding unsorted_def [symmetric] using run by blast
qed

theorem efficiency_ranking_witness:
  "list_all (\<lambda>(archetype, contribution).
       map_of [(''A'', 10::int), (''B'', 10), (''C'', 0), (''D'', 5)] archetype \<noteq> None)
     [(''A'', 500::real), (''B'', 1000), (''C'', 0), (''D'', 250)] \<and>
   efficiency_data [(''A'', 10), (''B'', 10), (''C'', 0), (''D'', 5)]
     [(''A'', 500), (''B'', 1000), (''C'', 0), (''D'', 250)] =
     Inr [(''B'', 100), (''A'', 50), (''D'', 50)] \<and>
   sorted (rev (map snd [(''B'', 100::real), (''A'', 50), (''D'', 50)])) \<and>
   filter (\<lambda>x. snd x = 50) [(''B'', 100::real), (''A'', 50), (''D'', 50)] =
     filter (\<lambda>x. snd x = 50) [(''A'', 50), (''B'', 100), (''D'', 50)] \<and>
   efficiency_data [(''A'', 10), (''B'', 10)] [(''A'', 500), (''B'', 1000)] =
     Inr [(''B'', 100), (''A'', 50)]"
proof -
  have h: "list_all (\<lambda>(archetype, contribution).
       map_of [(''A'', 10::int), (''B'', 10), (''C'', 0), (''D'', 5)] archetype \<noteq> None)
     [(''A'', 500::real), (''B'', 1000), (''C'', 0), (''D'', 250)]" by simp
  from efficiency_ranking [OF h] demo_ranking_tie
  have s: "sorted (rev (map snd [(''B'', 100::real), (''A'', 50), (''D'', 50)]))" by auto
  from h demo_ranking_tie demo_ranking s show ?thesis by simp
qed

text \<open>
  Claim C9. For a yearly series that is not empty, \<open>max_year_idx\<close> returns a position of
  the series that holds its maximum, and every earlier position holds a smaller value:
  it is the earliest year of the maximum.
\<close>

theorem best_performing_year:
  assumes "yearly_projections \<noteq> []"
  shows "\<exists>i. max_year_idx yearly_projections = Inr i \<and> i < length yearly_projections \<and>
            yearly_projections ! i = Max (set yearly_projections) \<and>
            (\<forall>j<length yearly_projections. yearly_projections ! j \<le> yearly_projections ! i) \<and>
            (\<forall>j<i. yearly_projections ! j < yearly_projections ! i)"
proof -
  from assms obtain x xs where ys: "yearly_projections = x # xs" by (cases yearly_projections) auto
  define m where "m = Max (set yearly_projections)"
  have pm: "py_max yearly_projections = Inr m"
    unfolding ys m_def by (rule py_max_Max)
  have mem: "m \<in> set yearly_projections"
    unfolding m_def using assms by (intro Max_in) auto
  have le: "v \<le> m" if "v \<in> set yearly_projections" for v
    unfolding m_def using that by (intro Max_ge) auto
  from py_index_first [OF mem] obtain i where i: "py_index yearly_projections m = Inr i"
    "i < length yearly_projections" "yearly_projections ! i = m"
    "\<forall>j<i. yearly_projections ! j \<noteq> m" by blast
  have a: "\<forall>j<length yearly_projections. yearly_projections ! j \<le> yearly_projections ! i"
    using le i(3) by simp
  have b: "\<forall>j<i. yearly_projections ! j < yearly_projections ! i"
  proof (intro allI impI)
    fix j assume j: "j < i"
    with i(2) have "yearly_projections ! j \<le> m" using le by simp
    moreover from j i(4) have "yearly_projections ! j \<noteq> m" by simp
    ultimately show "yearly_projections ! j < yearly_projections ! i" using i(3) by simp
  qed
  have "max_year_idx yearly_projections = Inr i"
    by (simp add: max_year_idx_def pm i(1))
  with i(2,3) a b show ?thesis unfolding m_def by blast
qed

theorem best_performing_year_witness:
  "[3, 7, 7, 1 :: real] \<noteq> [] \<and> max_year_idx [3, 7, 7, 1] = Inr 1 \<and>
   (\<exists>i. max_year_idx [3, 7, 7, 1] = Inr i \<and> i < length [3, 7, 7, 1 :: real] \<and>
        [3, 7, 7, 1] ! i = Max (set [3, 7, 7, 1 :: real]) \<and>
        (\<forall>j<length [3, 7, 7, 1 :: real]. [3, 7, 7, 1] ! j \<le> [3, 7, 7, 1 :: real] ! i) \<and>
        (\<forall>j<i. [3, 7, 7, 1] ! j < [3, 7, 7, 1 :: real] ! i))"
proof -
  have h: "[3, 7, 7, 1 :: real] \<noteq> []" by simp
  have e: "max_year_idx [3, 7, 7, 1] = Inr 1"
    by (simp add: max_year_idx_def)
  from best_performing_year [OF h] h e show ?thesis by (simp only: simp_thms)
qed

end
